theory Spec2Isabelle
  imports Main "HOL-Library.Word"
begin

section \<open>The dependency lattice\<close>

text \<open>
  Modelled from the spec: the class \<open>DepInfo\<close> (header \<open>DependencyInfo.h\<close>) is used by every
  source file but is not among them. The spec (section 3, DependencyInfo) gives the element as one
  of four cases: \<open>INPUT_INDEP\<close> (bottom), \<open>INPUT_ARG_DEP(S)\<close>, \<open>VALUE_DEP(S)\<close> and
  \<open>INPUT_DEP\<close> (top). Arguments and tracked values are both program values, so one type
  \<open>'a\<close> of tracked entities carries both kinds of set.
\<close>

datatype 'a DepInfo = INPUT_INDEP | INPUT_ARG_DEP "'a set" | VALUE_DEP "'a set" | INPUT_DEP

text \<open>
  Modelled from the spec: the queries of section 4.1, under the names the sources call them by
  (\<open>isInputIndep\<close>, \<open>isInputArgumentDep\<close>, \<open>isValueDep\<close>, \<open>isInputDep\<close>,
  \<open>getArgumentDependencies\<close>, \<open>getValueDependencies\<close>). An element that is not of the asked
  kind references no set.
\<close>

fun isInputIndep :: "'a DepInfo \<Rightarrow> bool" where
  "isInputIndep INPUT_INDEP = True"
| "isInputIndep _ = False"

fun isInputArgumentDep :: "'a DepInfo \<Rightarrow> bool" where
  "isInputArgumentDep (INPUT_ARG_DEP S) = True"
| "isInputArgumentDep _ = False"

fun isValueDep :: "'a DepInfo \<Rightarrow> bool" where
  "isValueDep (VALUE_DEP S) = True"
| "isValueDep _ = False"

fun isInputDep :: "'a DepInfo \<Rightarrow> bool" where
  "isInputDep INPUT_DEP = True"
| "isInputDep _ = False"

fun getArgumentDependencies :: "'a DepInfo \<Rightarrow> 'a set" where
  "getArgumentDependencies (INPUT_ARG_DEP S) = S"
| "getArgumentDependencies _ = {}"

fun getValueDependencies :: "'a DepInfo \<Rightarrow> 'a set" where
  "getValueDependencies (VALUE_DEP S) = S"
| "getValueDependencies _ = {}"

text \<open>
  Modelled from the spec: \<open>DepInfo::mergeDependencies\<close>, the merge of section 3.
  \<open>INPUT_DEP\<close> absorbs, \<open>INPUT_INDEP\<close> is the identity, two elements of the same refinable
  kind union their sets, and mixed kinds merge to the larger kind (\<open>VALUE_DEP\<close>, listed above
  \<open>INPUT_ARG_DEP\<close>) with the sets unioned. The C++ method updates its receiver; the model
  returns the merged element.
\<close>

fun mergeDependencies :: "'a DepInfo \<Rightarrow> 'a DepInfo \<Rightarrow> 'a DepInfo" where
  "mergeDependencies INPUT_DEP y = INPUT_DEP"
| "mergeDependencies x INPUT_DEP = INPUT_DEP"
| "mergeDependencies INPUT_INDEP y = y"
| "mergeDependencies x INPUT_INDEP = x"
| "mergeDependencies (INPUT_ARG_DEP S) (INPUT_ARG_DEP T) = INPUT_ARG_DEP (S \<union> T)"
| "mergeDependencies (INPUT_ARG_DEP S) (VALUE_DEP T) = VALUE_DEP (S \<union> T)"
| "mergeDependencies (VALUE_DEP S) (INPUT_ARG_DEP T) = VALUE_DEP (S \<union> T)"
| "mergeDependencies (VALUE_DEP S) (VALUE_DEP T) = VALUE_DEP (S \<union> T)"

text \<open>
  Modelled from the spec: the data model asks the set of an \<open>INPUT_ARG_DEP\<close> or
  \<open>VALUE_DEP\<close> element to be non-empty; an element with an empty set is outside the four cases.
\<close>

fun well_formed :: "'a DepInfo \<Rightarrow> bool" where
  "well_formed (INPUT_ARG_DEP S) = (S \<noteq> {})"
| "well_formed (VALUE_DEP S) = (S \<noteq> {})"
| "well_formed _ = True"

text \<open>The lattice order induced by the merge: \<open>x\<close> is below \<open>y\<close> when merging \<open>x\<close> into \<open>y\<close> adds nothing.\<close>

definition dep_le :: "'a DepInfo \<Rightarrow> 'a DepInfo \<Rightarrow> bool" where
  "dep_le x y = (mergeDependencies x y = y)"

section \<open>The non-deterministic reflecting basic block analyser\<close>

text \<open>
  Modelled from the spec: the class \<open>ValueDepInfo\<close> (the spec's CompositeValueDependency) is not
  among the sources. It wraps a \<open>DepInfo\<close> and, for an aggregate, a mapping from element
  selectors to \<open>DepInfo\<close>. Its queries \<open>isInputDep\<close> and \<open>isInputIndep\<close> ask the wrapped
  element. \<open>updateCompositeValueDep\<close> sets the wrapped element and every recorded element to
  the given dependency; merging another \<open>ValueDepInfo\<close> merges the wrapped elements and the
  recorded elements selector by selector; merging a plain \<open>DepInfo\<close> merges it into the wrapped
  element only (\<open>addOnDependencyInfo\<close> below goes through \<open>updateCompositeValueDep\<close> to
  reach the recorded elements).
\<close>

record ('e, 'a) ValueDepInfo =
  m_depInfo :: "'a DepInfo"
  m_elementDeps :: "'e \<rightharpoonup> 'a DepInfo"

definition isInputDep_V :: "('e, 'a) ValueDepInfo \<Rightarrow> bool" where
  "isInputDep_V info = isInputDep (m_depInfo info)"

definition isInputIndep_V :: "('e, 'a) ValueDepInfo \<Rightarrow> bool" where
  "isInputIndep_V info = isInputIndep (m_depInfo info)"

definition updateCompositeValueDep ::
  "'a DepInfo \<Rightarrow> ('e, 'a) ValueDepInfo \<Rightarrow> ('e, 'a) ValueDepInfo" where
  "updateCompositeValueDep depInfo info =
     \<lparr>m_depInfo = depInfo,
      m_elementDeps = (\<lambda>e. map_option (\<lambda>d. depInfo) (m_elementDeps info e))\<rparr>"

definition mergeDependencies_VV ::
  "('e, 'a) ValueDepInfo \<Rightarrow> ('e, 'a) ValueDepInfo \<Rightarrow> ('e, 'a) ValueDepInfo" where
  "mergeDependencies_VV info other =
     \<lparr>m_depInfo = mergeDependencies (m_depInfo info) (m_depInfo other),
      m_elementDeps = (\<lambda>e. case m_elementDeps info e of
                               None \<Rightarrow> m_elementDeps other e
                             | Some d \<Rightarrow> (case m_elementDeps other e of
                                           None \<Rightarrow> Some d
                                         | Some d' \<Rightarrow> Some (mergeDependencies d d')))\<rparr>"

definition mergeDependencies_VD ::
  "('e, 'a) ValueDepInfo \<Rightarrow> 'a DepInfo \<Rightarrow> ('e, 'a) ValueDepInfo" where
  "mergeDependencies_VD info depInfo =
     info\<lparr>m_depInfo := mergeDependencies (m_depInfo info) depInfo\<rparr>"

text \<open>
  Modelled from the spec: \<open>Utils::haveIntersection\<close> is not among the sources. The confirmed
  dependencies come as a map from arguments (or globals) to their dependency; a set intersects
  them when one of its members has an entry.
\<close>

definition haveIntersection :: "('a \<rightharpoonup> 'a DepInfo) \<Rightarrow> 'a set \<Rightarrow> bool" where
  "haveIntersection deps S = (\<exists>x\<in>S. deps x \<noteq> None)"

text \<open>
  Modelled from the spec: the state of the base classes (\<open>BasicBlockAnalysisResult\<close>,
  \<open>ReflectingBasicBlockAnaliser\<close>), which are not among the sources. Section 4.3 gives it a
  map from values to composite dependencies and a map from instructions to dependencies; the
  flag \<open>m_is_inputDep\<close> and the return value dependency are named by the derived class.
\<close>

record ('i, 'v, 'e, 'a) BasicBlockAnalysisResult =
  m_is_inputDep :: bool
  m_instructionDependencies :: "'i \<rightharpoonup> 'a DepInfo"
  m_valueDependencies :: "'v \<rightharpoonup> ('e, 'a) ValueDepInfo"
  m_returnValueDependencies :: "('e, 'a) ValueDepInfo"

text \<open>
  Modelled from the spec: the promotion rule of \<open>finalizeResults\<close> and \<open>finalizeGlobals\<close>
  (section 4.3). A tag \<open>INPUT_ARG_DEP(S)\<close> becomes \<open>INPUT_DEP\<close> when \<open>S\<close> intersects the
  confirmed arguments, a tag \<open>VALUE_DEP(S)\<close> when \<open>S\<close> intersects the confirmed globals;
  \<open>finalizeValueDependencies\<close> is the helper the derived class calls on its own context. The
  base classes apply the rule to every stored dependency.
\<close>

definition finalizeArgumentDependencies :: "('a \<rightharpoonup> 'a DepInfo) \<Rightarrow> 'a DepInfo \<Rightarrow> 'a DepInfo" where
  "finalizeArgumentDependencies dependentArgs toFinalize =
     (if isInputArgumentDep toFinalize
         \<and> haveIntersection dependentArgs (getArgumentDependencies toFinalize)
      then INPUT_DEP else toFinalize)"

definition finalizeValueDependencies :: "('a \<rightharpoonup> 'a DepInfo) \<Rightarrow> 'a DepInfo \<Rightarrow> 'a DepInfo" where
  "finalizeValueDependencies globalsDeps toFinalize =
     (if isValueDep toFinalize
         \<and> haveIntersection globalsDeps (getValueDependencies toFinalize)
      then INPUT_DEP else toFinalize)"

definition finalize_V ::
  "('a DepInfo \<Rightarrow> 'a DepInfo) \<Rightarrow> ('e, 'a) ValueDepInfo \<Rightarrow> ('e, 'a) ValueDepInfo" where
  "finalize_V f info =
     \<lparr>m_depInfo = f (m_depInfo info), m_elementDeps = (\<lambda>e. map_option f (m_elementDeps info e))\<rparr>"

definition finalize_stored ::
  "('a DepInfo \<Rightarrow> 'a DepInfo) \<Rightarrow> ('i, 'v, 'e, 'a) BasicBlockAnalysisResult
     \<Rightarrow> ('i, 'v, 'e, 'a) BasicBlockAnalysisResult" where
  "finalize_stored f b =
     b\<lparr>m_instructionDependencies := (\<lambda>i. map_option f (m_instructionDependencies b i)),
       m_valueDependencies := (\<lambda>v. map_option (finalize_V f) (m_valueDependencies b v)),
       m_returnValueDependencies := finalize_V f (m_returnValueDependencies b)\<rparr>"

definition Reflecting_finalizeResults ::
  "('a \<rightharpoonup> 'a DepInfo) \<Rightarrow> ('i, 'v, 'e, 'a) BasicBlockAnalysisResult
     \<Rightarrow> ('i, 'v, 'e, 'a) BasicBlockAnalysisResult" where
  "Reflecting_finalizeResults dependentArgs b =
     finalize_stored (finalizeArgumentDependencies dependentArgs) b"

definition Base_finalizeGlobals ::
  "('a \<rightharpoonup> 'a DepInfo) \<Rightarrow> ('i, 'v, 'e, 'a) BasicBlockAnalysisResult
     \<Rightarrow> ('i, 'v, 'e, 'a) BasicBlockAnalysisResult" where
  "Base_finalizeGlobals globalsDeps b =
     finalize_stored (finalizeValueDependencies globalsDeps) b"

text \<open>
  Modelled from the spec: the stores of the base class, each writing the given dependency
  under its key (section 4.3, State), and its lookups. They instantiate the base-class methods
  in the concrete evaluations; the functions of the derived class below take the base-class
  method they call as their first argument.
\<close>

definition Reflecting_updateInstructionDependencies ::
  "'i \<Rightarrow> 'a DepInfo \<Rightarrow> ('i, 'v, 'e, 'a) BasicBlockAnalysisResult
     \<Rightarrow> ('i, 'v, 'e, 'a) BasicBlockAnalysisResult" where
  "Reflecting_updateInstructionDependencies instr info b =
     b\<lparr>m_instructionDependencies := (m_instructionDependencies b)(instr \<mapsto> info)\<rparr>"

definition Reflecting_updateValueDependencies ::
  "'v \<Rightarrow> ('e, 'a) ValueDepInfo \<Rightarrow> bool \<Rightarrow> ('i, 'v, 'e, 'a) BasicBlockAnalysisResult
     \<Rightarrow> ('i, 'v, 'e, 'a) BasicBlockAnalysisResult" where
  "Reflecting_updateValueDependencies val info update_aliases b =
     b\<lparr>m_valueDependencies := (m_valueDependencies b)(val \<mapsto> info)\<rparr>"

definition Reflecting_updateReturnValueDependencies ::
  "('e, 'a) ValueDepInfo \<Rightarrow> ('i, 'v, 'e, 'a) BasicBlockAnalysisResult
     \<Rightarrow> ('i, 'v, 'e, 'a) BasicBlockAnalysisResult" where
  "Reflecting_updateReturnValueDependencies info b = b\<lparr>m_returnValueDependencies := info\<rparr>"

definition Reflecting_getValueDependencies ::
  "('i, 'v, 'e, 'a) BasicBlockAnalysisResult \<Rightarrow> 'v \<Rightarrow> ('e, 'a) ValueDepInfo option" where
  "Reflecting_getValueDependencies b val = m_valueDependencies b val"

text \<open>
  \<open>NonDeterministicReflectingBasicBlockAnaliser\<close> (the second document of
  \<open>DependencyAnaliser.h\<close>): the state of its base classes and its own member
  \<open>m_nonDeterministicDeps\<close>, which no base class can reach.
\<close>

record ('i, 'v, 'e, 'a) NonDeterministicReflectingBasicBlockAnaliser =
  reflecting :: "('i, 'v, 'e, 'a) BasicBlockAnalysisResult"
  m_nonDeterministicDeps :: "'a DepInfo"

definition getBlockDependencies ::
  "('i, 'v, 'e, 'a) NonDeterministicReflectingBasicBlockAnaliser \<Rightarrow> 'a DepInfo" where
  "getBlockDependencies s = m_nonDeterministicDeps s"

definition set_is_inputDep ::
  "bool \<Rightarrow> ('i, 'v, 'e, 'a) NonDeterministicReflectingBasicBlockAnaliser
     \<Rightarrow> ('i, 'v, 'e, 'a) NonDeterministicReflectingBasicBlockAnaliser" where
  "set_is_inputDep flag s = s\<lparr>reflecting := (reflecting s)\<lparr>m_is_inputDep := flag\<rparr>\<rparr>"

text \<open>\<open>finalizeResults\<close>; \<open>super\<close> is \<open>ReflectingBasicBlockAnaliser::finalizeResults\<close>.\<close>

definition finalizeResults ::
  "(('a \<rightharpoonup> 'a DepInfo) \<Rightarrow> ('i, 'v, 'e, 'a) BasicBlockAnalysisResult
      \<Rightarrow> ('i, 'v, 'e, 'a) BasicBlockAnalysisResult)
   \<Rightarrow> ('a \<rightharpoonup> 'a DepInfo) \<Rightarrow> ('i, 'v, 'e, 'a) NonDeterministicReflectingBasicBlockAnaliser
   \<Rightarrow> ('i, 'v, 'e, 'a) NonDeterministicReflectingBasicBlockAnaliser" where
  "finalizeResults super dependentArgs s =
     (let s1 = s\<lparr>reflecting := super dependentArgs (reflecting s)\<rparr>;
          s2 = (if isInputDep (m_nonDeterministicDeps s1) then set_is_inputDep True s1 else s1)
      in if isInputArgumentDep (m_nonDeterministicDeps s2)
            \<and> haveIntersection dependentArgs (getArgumentDependencies (m_nonDeterministicDeps s2))
         then set_is_inputDep True s2 else s2)"

text \<open>\<open>finalizeGlobals\<close>; \<open>super\<close> is \<open>BasicBlockAnalysisResult::finalizeGlobals\<close>.\<close>

definition finalizeGlobals ::
  "(('a \<rightharpoonup> 'a DepInfo) \<Rightarrow> ('i, 'v, 'e, 'a) BasicBlockAnalysisResult
      \<Rightarrow> ('i, 'v, 'e, 'a) BasicBlockAnalysisResult)
   \<Rightarrow> ('a \<rightharpoonup> 'a DepInfo) \<Rightarrow> ('i, 'v, 'e, 'a) NonDeterministicReflectingBasicBlockAnaliser
   \<Rightarrow> ('i, 'v, 'e, 'a) NonDeterministicReflectingBasicBlockAnaliser" where
  "finalizeGlobals super globalsDeps s =
     (let s1 = s\<lparr>reflecting := super globalsDeps (reflecting s)\<rparr>
      in if \<not> isValueDep (m_nonDeterministicDeps s1)
            \<and> getValueDependencies (m_nonDeterministicDeps s1) = {}
         then s1
         else (let s2 = s1\<lparr>m_nonDeterministicDeps :=
                            finalizeValueDependencies globalsDeps (m_nonDeterministicDeps s1)\<rparr>
               in set_is_inputDep
                    (m_is_inputDep (reflecting s2) \<or> isInputDep (m_nonDeterministicDeps s2)) s2))"

text \<open>The reads. \<open>super\<close> is the method of \<open>ReflectingBasicBlockAnaliser\<close> of the same name; a
  value dependency that is not defined is \<open>None\<close>.\<close>

definition getInstructionDependencies ::
  "(('i, 'v, 'e, 'a) BasicBlockAnalysisResult \<Rightarrow> 'i \<Rightarrow> 'a DepInfo)
   \<Rightarrow> ('i, 'v, 'e, 'a) NonDeterministicReflectingBasicBlockAnaliser \<Rightarrow> 'i \<Rightarrow> 'a DepInfo" where
  "getInstructionDependencies super s instr =
     (let depInfo = super (reflecting s) instr
      in if isInputDep depInfo then depInfo
         else mergeDependencies depInfo (m_nonDeterministicDeps s))"

definition getValueDependencies_BB ::
  "(('i, 'v, 'e, 'a) BasicBlockAnalysisResult \<Rightarrow> 'v \<Rightarrow> ('e, 'a) ValueDepInfo option)
   \<Rightarrow> ('i, 'v, 'e, 'a) NonDeterministicReflectingBasicBlockAnaliser \<Rightarrow> 'v
   \<Rightarrow> ('e, 'a) ValueDepInfo option" where
  "getValueDependencies_BB super s val =
     (case super (reflecting s) val of
        None \<Rightarrow> None
      | Some depInfo \<Rightarrow>
          if isInputDep_V depInfo then Some depInfo
          else Some (mergeDependencies_VD depInfo (m_nonDeterministicDeps s)))"

definition getCompositeValueDependencies ::
  "(('i, 'v, 'e, 'a) BasicBlockAnalysisResult \<Rightarrow> 'v \<Rightarrow> 'i \<Rightarrow> ('e, 'a) ValueDepInfo option)
   \<Rightarrow> ('i, 'v, 'e, 'a) NonDeterministicReflectingBasicBlockAnaliser \<Rightarrow> 'v \<Rightarrow> 'i
   \<Rightarrow> ('e, 'a) ValueDepInfo option" where
  "getCompositeValueDependencies super s val element_instr =
     (case super (reflecting s) val element_instr of
        None \<Rightarrow> None
      | Some depInfo \<Rightarrow>
          if isInputDep_V depInfo then Some depInfo
          else Some (mergeDependencies_VD depInfo (m_nonDeterministicDeps s)))"

text \<open>\<open>addOnDependencyInfo\<close>, on a \<open>DepInfo\<close> and on a \<open>ValueDepInfo\<close>.\<close>

definition addOnDependencyInfo ::
  "('i, 'v, 'e, 'a) NonDeterministicReflectingBasicBlockAnaliser \<Rightarrow> 'a DepInfo \<Rightarrow> 'a DepInfo" where
  "addOnDependencyInfo s info =
     (if isInputDep info then info
      else (let newInfo = info in mergeDependencies newInfo (m_nonDeterministicDeps s)))"

definition addOnDependencyInfo_V ::
  "('i, 'v, 'e, 'a) NonDeterministicReflectingBasicBlockAnaliser \<Rightarrow> ('e, 'a) ValueDepInfo
     \<Rightarrow> ('e, 'a) ValueDepInfo" where
  "addOnDependencyInfo_V s info =
     (let newInfo = info;
          nonDetDeps_info = updateCompositeValueDep (m_nonDeterministicDeps s) newInfo
      in mergeDependencies_VV newInfo nonDetDeps_info)"

text \<open>The writes. \<open>super\<close> is the method of \<open>ReflectingBasicBlockAnaliser\<close> of the same name.
  The two overloads of \<open>updateValueDependencies\<close> differ in the type \<open>'d\<close> of the dependency
  (\<open>DepInfo\<close> or \<open>ValueDepInfo\<close>) only.\<close>

definition updateValueDependencies ::
  "('v \<Rightarrow> 'd \<Rightarrow> bool \<Rightarrow> ('i, 'v, 'e, 'a) BasicBlockAnalysisResult
      \<Rightarrow> ('i, 'v, 'e, 'a) BasicBlockAnalysisResult)
   \<Rightarrow> 'v \<Rightarrow> 'd \<Rightarrow> bool \<Rightarrow> ('i, 'v, 'e, 'a) NonDeterministicReflectingBasicBlockAnaliser
   \<Rightarrow> ('i, 'v, 'e, 'a) NonDeterministicReflectingBasicBlockAnaliser" where
  "updateValueDependencies super val info update_aliases s =
     s\<lparr>reflecting := super val info update_aliases (reflecting s)\<rparr>"

definition updateCompositeValueDependencies ::
  "('v \<Rightarrow> 'i \<Rightarrow> ('e, 'a) ValueDepInfo \<Rightarrow> ('i, 'v, 'e, 'a) BasicBlockAnalysisResult
      \<Rightarrow> ('i, 'v, 'e, 'a) BasicBlockAnalysisResult)
   \<Rightarrow> 'v \<Rightarrow> 'i \<Rightarrow> ('e, 'a) ValueDepInfo
   \<Rightarrow> ('i, 'v, 'e, 'a) NonDeterministicReflectingBasicBlockAnaliser
   \<Rightarrow> ('i, 'v, 'e, 'a) NonDeterministicReflectingBasicBlockAnaliser" where
  "updateCompositeValueDependencies super val elInstr info s =
     s\<lparr>reflecting := super val elInstr (addOnDependencyInfo_V s info) (reflecting s)\<rparr>"

definition updateInstructionDependencies ::
  "('i \<Rightarrow> 'a DepInfo \<Rightarrow> ('i, 'v, 'e, 'a) BasicBlockAnalysisResult
      \<Rightarrow> ('i, 'v, 'e, 'a) BasicBlockAnalysisResult)
   \<Rightarrow> 'i \<Rightarrow> 'a DepInfo \<Rightarrow> ('i, 'v, 'e, 'a) NonDeterministicReflectingBasicBlockAnaliser
   \<Rightarrow> ('i, 'v, 'e, 'a) NonDeterministicReflectingBasicBlockAnaliser" where
  "updateInstructionDependencies super instr info s =
     s\<lparr>reflecting := super instr (addOnDependencyInfo s info) (reflecting s)\<rparr>"

definition updateReturnValueDependencies ::
  "(('e, 'a) ValueDepInfo \<Rightarrow> ('i, 'v, 'e, 'a) BasicBlockAnalysisResult
      \<Rightarrow> ('i, 'v, 'e, 'a) BasicBlockAnalysisResult)
   \<Rightarrow> ('e, 'a) ValueDepInfo \<Rightarrow> ('i, 'v, 'e, 'a) NonDeterministicReflectingBasicBlockAnaliser
   \<Rightarrow> ('i, 'v, 'e, 'a) NonDeterministicReflectingBasicBlockAnaliser" where
  "updateReturnValueDependencies super info s =
     s\<lparr>reflecting := super (addOnDependencyInfo_V s info) (reflecting s)\<rparr>"

definition getArgumentValueDependecnies ::
  "(('i, 'v, 'e, 'a) BasicBlockAnalysisResult \<Rightarrow> 'v \<Rightarrow> ('e, 'a) ValueDepInfo)
   \<Rightarrow> ('i, 'v, 'e, 'a) NonDeterministicReflectingBasicBlockAnaliser \<Rightarrow> 'v
   \<Rightarrow> ('e, 'a) ValueDepInfo" where
  "getArgumentValueDependecnies super s argVal =
     (let depInfo = super (reflecting s) argVal
      in if isInputIndep_V depInfo then depInfo else addOnDependencyInfo_V s depInfo)"

text \<open>
  The wording of the spec, for comparison with the code: folding the ambient context into a
  dependency is merging the context into it (into the wrapped element and into every recorded
  element of a composite), and the naive read merges the context into whatever the base class
  returns, whether or not that is already \<open>INPUT_DEP\<close>. The naive read drops only that
  shortcut: a value dependency that is not defined is still returned as it is.
\<close>

definition fold_context_V :: "'a DepInfo \<Rightarrow> ('e, 'a) ValueDepInfo \<Rightarrow> ('e, 'a) ValueDepInfo" where
  "fold_context_V ctx info =
     \<lparr>m_depInfo = mergeDependencies (m_depInfo info) ctx,
      m_elementDeps = (\<lambda>e. map_option (\<lambda>d. mergeDependencies d ctx) (m_elementDeps info e))\<rparr>"

definition getInstructionDependencies_naive ::
  "(('i, 'v, 'e, 'a) BasicBlockAnalysisResult \<Rightarrow> 'i \<Rightarrow> 'a DepInfo)
   \<Rightarrow> ('i, 'v, 'e, 'a) NonDeterministicReflectingBasicBlockAnaliser \<Rightarrow> 'i \<Rightarrow> 'a DepInfo" where
  "getInstructionDependencies_naive super s instr =
     mergeDependencies (super (reflecting s) instr) (m_nonDeterministicDeps s)"

definition getValueDependencies_naive ::
  "(('i, 'v, 'e, 'a) BasicBlockAnalysisResult \<Rightarrow> 'v \<Rightarrow> ('e, 'a) ValueDepInfo option)
   \<Rightarrow> ('i, 'v, 'e, 'a) NonDeterministicReflectingBasicBlockAnaliser \<Rightarrow> 'v
   \<Rightarrow> ('e, 'a) ValueDepInfo option" where
  "getValueDependencies_naive super s val =
     map_option (\<lambda>depInfo. mergeDependencies_VD depInfo (m_nonDeterministicDeps s))
       (super (reflecting s) val)"

definition getCompositeValueDependencies_naive ::
  "(('i, 'v, 'e, 'a) BasicBlockAnalysisResult \<Rightarrow> 'v \<Rightarrow> 'i \<Rightarrow> ('e, 'a) ValueDepInfo option)
   \<Rightarrow> ('i, 'v, 'e, 'a) NonDeterministicReflectingBasicBlockAnaliser \<Rightarrow> 'v \<Rightarrow> 'i
   \<Rightarrow> ('e, 'a) ValueDepInfo option" where
  "getCompositeValueDependencies_naive super s val element_instr =
     map_option (\<lambda>depInfo. mergeDependencies_VD depInfo (m_nonDeterministicDeps s))
       (super (reflecting s) val element_instr)"

text \<open>
  The order of the lattice lifted to composite dependencies and to analyser states: every stored
  entry, the return value dependency and the ambient context are below their counterparts, no
  entry is lost, and a raised flag stays raised.
\<close>

definition V_le :: "('e, 'a) ValueDepInfo \<Rightarrow> ('e, 'a) ValueDepInfo \<Rightarrow> bool" where
  "V_le info info' =
     (dep_le (m_depInfo info) (m_depInfo info')
      \<and> (\<forall>e. rel_option dep_le (m_elementDeps info e) (m_elementDeps info' e)))"

definition analiser_le ::
  "('i, 'v, 'e, 'a) NonDeterministicReflectingBasicBlockAnaliser
     \<Rightarrow> ('i, 'v, 'e, 'a) NonDeterministicReflectingBasicBlockAnaliser \<Rightarrow> bool" where
  "analiser_le s s' =
     ((\<forall>instr. rel_option dep_le (m_instructionDependencies (reflecting s) instr)
                 (m_instructionDependencies (reflecting s') instr))
      \<and> (\<forall>val. rel_option V_le (m_valueDependencies (reflecting s) val)
                 (m_valueDependencies (reflecting s') val))
      \<and> V_le (m_returnValueDependencies (reflecting s)) (m_returnValueDependencies (reflecting s'))
      \<and> dep_le (m_nonDeterministicDeps s) (m_nonDeterministicDeps s')
      \<and> (m_is_inputDep (reflecting s) \<longrightarrow> m_is_inputDep (reflecting s')))"

text \<open>For concrete evaluation: an all-independent composite value with one recorded element, a
  base-class argument lookup that finds every argument to be that value, and an analyser state
  whose block is reached under \<open>INPUT_DEP\<close> control.\<close>

definition indep_info :: "(nat, nat) ValueDepInfo" where
  "indep_info = \<lparr>m_depInfo = INPUT_INDEP, m_elementDeps = [0 \<mapsto> INPUT_INDEP]\<rparr>"

definition indep_lookup ::
  "(nat, nat, nat, nat) BasicBlockAnalysisResult \<Rightarrow> nat \<Rightarrow> (nat, nat) ValueDepInfo" where
  "indep_lookup b argVal = indep_info"

definition analiser0 :: "(nat, nat, nat, nat) NonDeterministicReflectingBasicBlockAnaliser" where
  "analiser0 =
     \<lparr>reflecting = \<lparr>m_is_inputDep = False,
                     m_instructionDependencies = [1 \<mapsto> INPUT_ARG_DEP {1}, 2 \<mapsto> VALUE_DEP {5}],
                     m_valueDependencies = [1 \<mapsto> indep_info],
                     m_returnValueDependencies = indep_info\<rparr>,
      m_nonDeterministicDeps = INPUT_DEP\<rparr>"

section \<open>The module analysis cache\<close>

text \<open>
  \<open>CachedInputDependencyAnalysis.cpp\<close>. A pointer \<open>llvm::Function*\<close> is an \<open>'f option\<close>,
  \<open>None\<close> being \<open>nullptr\<close>; a basic block knows its parent function and an instruction its
  parent block, either of which may be null for a detached object.
\<close>

record 'f BasicBlock =
  bb_id :: nat
  bb_getParent :: "'f option"

record 'f Instruction =
  inst_id :: nat
  inst_getParent :: "'f BasicBlock option"

text \<open>
  The per-function result behind \<open>InputDepResType\<close> (\<open>CachedFunctionAnalysisResult\<close>) is not
  among the sources; the two queries the cache forwards to are taken as they are, as the fields
  of a record.
\<close>

record 'f FunctionAnalysisResult =
  res_isInputDependent :: "'f Instruction \<Rightarrow> bool"
  res_isInputDependentBlock :: "'f BasicBlock \<Rightarrow> bool"

text \<open>
  \<open>m_functionAnalisers\<close>: a map from function pointers to shared pointers to results; a stored
  shared pointer may itself be null (\<open>insertAnalysisInfo\<close> stores whatever handle it is given).
\<close>

type_synonym 'f FunctionAnalisers = "'f option \<rightharpoonup> 'f FunctionAnalysisResult option"

datatype error = AssertionFailure | NullPointerDereference

text \<open>\<open>isInputDependent(llvm::Function* F, llvm::Instruction* instr)\<close>\<close>

definition isInputDependent_FI ::
  "'f FunctionAnalisers \<Rightarrow> 'f option \<Rightarrow> 'f Instruction \<Rightarrow> error + bool" where
  "isInputDependent_FI m F instr =
     (case m F of
        None \<Rightarrow> Inr False
      | Some None \<Rightarrow> Inl NullPointerDereference
      | Some (Some res) \<Rightarrow> Inr (res_isInputDependent res instr))"

text \<open>\<open>isInputDependent(llvm::Instruction* instr)\<close>, with its assertion that the owner is not null.\<close>

definition isInputDependent_I ::
  "'f FunctionAnalisers \<Rightarrow> 'f Instruction \<Rightarrow> error + bool" where
  "isInputDependent_I m instr =
     (case inst_getParent instr of
        None \<Rightarrow> Inl NullPointerDereference
      | Some block \<Rightarrow>
          (let F = bb_getParent block
           in if F = None then Inl AssertionFailure else isInputDependent_FI m F instr))"

text \<open>\<open>isInputDependent(llvm::BasicBlock* block)\<close>\<close>

definition isInputDependent_B ::
  "'f FunctionAnalisers \<Rightarrow> 'f BasicBlock \<Rightarrow> error + bool" where
  "isInputDependent_B m block =
     (let F = bb_getParent block
      in case m F of
           None \<Rightarrow> Inr False
         | Some None \<Rightarrow> Inl NullPointerDereference
         | Some (Some res) \<Rightarrow> Inr (res_isInputDependentBlock res block))"

text \<open>\<open>getAnalysisInfo\<close> (both overloads have the same body): \<open>None\<close> is the null handle.\<close>

definition getAnalysisInfo ::
  "'f FunctionAnalisers \<Rightarrow> 'f option \<Rightarrow> 'f FunctionAnalysisResult option" where
  "getAnalysisInfo m F = (case m F of None \<Rightarrow> None | Some handle \<Rightarrow> handle)"

text \<open>\<open>insertAnalysisInfo\<close>: the returned flag and the table after the call.\<close>

definition insertAnalysisInfo ::
  "'f option \<Rightarrow> 'f FunctionAnalysisResult option \<Rightarrow> 'f FunctionAnalisers
     \<Rightarrow> bool \<times> 'f FunctionAnalisers" where
  "insertAnalysisInfo F analysis_info m =
     (if m F \<noteq> None then (False, m) else (True, m(F \<mapsto> analysis_info)))"

text \<open>
  \<open>run\<close>: the loop over the functions of the module, in the module's order.
  \<open>Utils::isLibraryFunction\<close> and the construction and analysis of a
  \<open>CachedFunctionAnalysisResult\<close> are not among the sources and are parameters. The result of
  \<open>std::map::insert\<close> is asserted: inserting under a key that is present leaves the table alone
  and fails the assertion.
\<close>

fun run :: "('f \<Rightarrow> bool) \<Rightarrow> ('f \<Rightarrow> 'f FunctionAnalysisResult) \<Rightarrow> 'f list
    \<Rightarrow> 'f FunctionAnalisers \<Rightarrow> error + 'f FunctionAnalisers" where
  "run isLibraryFunction analyze [] m = Inr m"
| "run isLibraryFunction analyze (F # Fs) m =
     (if isLibraryFunction F then run isLibraryFunction analyze Fs m
      else (let cached_function = analyze F
            in if m (Some F) \<noteq> None then Inl AssertionFailure
               else run isLibraryFunction analyze Fs (m(Some F \<mapsto> Some cached_function))))"

text \<open>A small cache for concrete evaluation: function 1 is registered, with a result that flags instruction 7 and block 3.\<close>

definition res0 :: "nat FunctionAnalysisResult" where
  "res0 = \<lparr>res_isInputDependent = (\<lambda>i. inst_id i = 7), res_isInputDependentBlock = (\<lambda>b. bb_id b = 3)\<rparr>"

definition cache0 :: "nat FunctionAnalisers" where
  "cache0 = [Some 1 \<mapsto> Some res0]"

definition block_in :: "nat \<Rightarrow> nat BasicBlock" where
  "block_in f = \<lparr>bb_id = 3, bb_getParent = Some f\<rparr>"

definition instr_in :: "nat \<Rightarrow> nat Instruction" where
  "instr_in f = \<lparr>inst_id = 7, inst_getParent = Some (block_in f)\<rparr>"

section \<open>The library function model\<close>

text \<open>
  Modelled from the spec: the class \<open>LibFunctionInfo\<close> (\<open>LibFunctionInfo.h\<close>) is not among the
  sources. The spec (section 3, LibraryFunctionModel) gives it, per external symbol name, a
  resolved flag, a return-dependency formula and a dependency formula per out-argument; the
  formulas are of a type \<open>'d\<close> left open, out-arguments are numbered, and the symbol a model is
  bound to is remembered. \<open>resolve\<close> binds the model to the symbol and raises the flag.
\<close>

record ('f, 'd) LibFunctionInfo =
  getName :: string
  isResolved :: bool
  resolvedFunction :: "'f option"
  returnDependency :: 'd
  argumentDependencies :: "nat \<rightharpoonup> 'd"

definition resolve :: "'f \<Rightarrow> ('f, 'd) LibFunctionInfo \<Rightarrow> ('f, 'd) LibFunctionInfo" where
  "resolve F info = info\<lparr>isResolved := True, resolvedFunction := Some F\<rparr>"

text \<open>\<open>m_libraryInfo\<close> of \<open>LibraryInfoManager\<close>: the table from names to models.\<close>

type_synonym ('f, 'd) LibraryInfo = "string \<rightharpoonup> ('f, 'd) LibFunctionInfo"

definition hasLibFunctionInfo :: "('f, 'd) LibraryInfo \<Rightarrow> string \<Rightarrow> bool" where
  "hasLibFunctionInfo m funcName = (m funcName \<noteq> None)"

definition getLibFunctionInfo ::
  "('f, 'd) LibraryInfo \<Rightarrow> string \<Rightarrow> error + ('f, 'd) LibFunctionInfo" where
  "getLibFunctionInfo m funcName =
     (case m funcName of None \<Rightarrow> Inl AssertionFailure | Some info \<Rightarrow> Inr info)"

text \<open>
  \<open>resolveLibFunctionInfo\<close>: the reference \<open>libF\<close> points into the table, so resolving it
  updates the entry under \<open>demangledName\<close>.
\<close>

definition resolveLibFunctionInfo ::
  "'f \<Rightarrow> string \<Rightarrow> ('f, 'd) LibraryInfo \<Rightarrow> error + ('f, 'd) LibraryInfo" where
  "resolveLibFunctionInfo F demangledName m =
     (case getLibFunctionInfo m demangledName of
        Inl e \<Rightarrow> Inl e
      | Inr libF \<Rightarrow>
          if isResolved libF then Inr m
          else Inr (m(demangledName \<mapsto> resolve F libF)))"

text \<open>
  \<open>addLibFunctionInfo\<close> (both overloads): \<open>emplace\<close> on a map with unique keys inserts only
  when the key is absent.
\<close>

definition addLibFunctionInfo ::
  "('f, 'd) LibFunctionInfo \<Rightarrow> ('f, 'd) LibraryInfo \<Rightarrow> ('f, 'd) LibraryInfo" where
  "addLibFunctionInfo funcInfo m =
     (if m (getName funcInfo) \<noteq> None then m else m(getName funcInfo \<mapsto> funcInfo))"

text \<open>
  \<open>LibraryInfoManager::setup\<close>: \<open>CLibraryInfo\<close>, \<open>STLStringInfo\<close> and \<open>LibraryInfoFromConfigFile\<close> are not among
  the sources; each hands its models to the collector one after another, so each is the list
  of models it hands over, and the configuration list is there only when a configuration file
  is set.
\<close>

definition setup_libraryInfo ::
  "('f, 'd) LibFunctionInfo list \<Rightarrow> ('f, 'd) LibFunctionInfo list
     \<Rightarrow> ('f, 'd) LibFunctionInfo list option \<Rightarrow> ('f, 'd) LibraryInfo \<Rightarrow> ('f, 'd) LibraryInfo" where
  "setup_libraryInfo clibInfo stlStringInfo configInfo m =
     (let m1 = fold addLibFunctionInfo clibInfo m;
          m2 = fold addLibFunctionInfo stlStringInfo m1
      in case configInfo of
           None \<Rightarrow> m2
         | Some entries \<Rightarrow> fold addLibFunctionInfo entries m2)"

text \<open>Three models for concrete evaluation: a built-in \<open>strlen\<close>, a built-in \<open>append\<close> and a
  configuration entry that also calls itself \<open>strlen\<close>.\<close>

definition builtin_strlen :: "(nat, nat) LibFunctionInfo" where
  "builtin_strlen = \<lparr>getName = ''strlen'', isResolved = False, resolvedFunction = None,
     returnDependency = 0, argumentDependencies = Map.empty\<rparr>"

definition builtin_append :: "(nat, nat) LibFunctionInfo" where
  "builtin_append = \<lparr>getName = ''append'', isResolved = False, resolvedFunction = None,
     returnDependency = 1, argumentDependencies = [0 \<mapsto> 1]\<rparr>"

definition config_strlen :: "(nat, nat) LibFunctionInfo" where
  "config_strlen = \<lparr>getName = ''strlen'', isResolved = False, resolvedFunction = None,
     returnDependency = 7, argumentDependencies = Map.empty\<rparr>"

section \<open>Statistics\<close>

text \<open>
  \<open>InputDependencyStatistics.cpp\<close>. \<open>unsigned\<close> is a 32-bit word. Of a function the report
  reads its name and, per basic block, the size of the instruction list; of a function's
  analysis result (a class not among the sources) it reads \<open>get_input_indep_count()\<close> and
  \<open>isInputDepFunction()\<close>, taken here as fields.
\<close>

record LFunction =
  fn_getName :: string
  fn_blocks :: "nat list"

record FunctionStats =
  get_input_indep_count :: "32 word"
  isInputDepFunction :: bool

text \<open>The base class \<open>Statistics\<close> is not among the sources: \<open>write_entry\<close> is taken to append
  the entry to what has been written, and \<open>setStatsTypeName\<close> to set the current type name.\<close>

datatype entry_value = Unsigned "32 word" | Strings "string list"

record Statistics =
  stats_type_name :: "string option"
  written :: "(string \<times> string \<times> entry_value) list"

definition setStatsTypeName :: "string \<Rightarrow> Statistics \<Rightarrow> Statistics" where
  "setStatsTypeName n st = st\<lparr>stats_type_name := Some n\<rparr>"

definition write_entry :: "string \<Rightarrow> string \<Rightarrow> entry_value \<Rightarrow> Statistics \<Rightarrow> Statistics" where
  "write_entry name key v st = st\<lparr>written := written st @ [(name, key, v)]\<rparr>"

text \<open>\<open>get_function_instrs_count\<close>: the sizes are \<open>size_t\<close>, the counter is \<open>unsigned\<close>.\<close>

definition get_function_instrs_count :: "LFunction \<Rightarrow> 32 word" where
  "get_function_instrs_count F = fold (\<lambda>B count. count + of_nat B) (fn_blocks F) 0"

record inputdep_data =
  data_name :: string
  data_all_instrs_count :: "32 word"
  data_input_dep_instrs_count :: "32 word"
  data_inputdep_functions_count :: "32 word"
  data_inputdep_functions :: "string list"

text \<open>\<open>report_inputdep_data\<close>; the fields of \<open>inputdep_data\<close> carry the prefix \<open>data_\<close>.\<close>

definition report_inputdep_data :: "inputdep_data \<Rightarrow> Statistics \<Rightarrow> Statistics" where
  "report_inputdep_data data st =
     write_entry (data_name data) ''InputDepFuncs'' (Strings (data_inputdep_functions data))
       (write_entry (data_name data) ''NumOfInDepFuncs'' (Unsigned (data_inputdep_functions_count data))
         (write_entry (data_name data) ''NumOfInDepInst'' (Unsigned (data_input_dep_instrs_count data))
           (write_entry (data_name data) ''NumOfInst'' (Unsigned (data_all_instrs_count data)) st)))"

text \<open>The body of the loop of \<open>reportInputDependencyInfo\<close>, on the four local variables
  \<open>module_instructions\<close>, \<open>module_inputdep_instrs\<close>, \<open>inputdep_functions_count\<close> and
  \<open>input_dep_functions\<close>.\<close>

definition report_step ::
  "LFunction \<times> FunctionStats \<Rightarrow> 32 word \<times> 32 word \<times> 32 word \<times> string list
     \<Rightarrow> 32 word \<times> 32 word \<times> 32 word \<times> string list" where
  "report_step F_inputDep acc =
     (case acc of (module_instructions, module_inputdep_instrs, inputdep_functions_count,
                   input_dep_functions) \<Rightarrow>
        (module_instructions + get_function_instrs_count (fst F_inputDep),
         module_inputdep_instrs + get_input_indep_count (snd F_inputDep),
         if isInputDepFunction (snd F_inputDep) then inputdep_functions_count + 1
         else inputdep_functions_count,
         if isInputDepFunction (snd F_inputDep)
         then input_dep_functions @ [fn_getName (fst F_inputDep)]
         else input_dep_functions))"

text \<open>\<open>reportInputDependencyInfo\<close>: \<open>m_IDA\<close> is the sequence of pairs of a function and its
  result in the order the loop visits them.\<close>

definition reportInputDependencyInfo ::
  "string \<Rightarrow> (LFunction \<times> FunctionStats) list \<Rightarrow> Statistics \<Rightarrow> Statistics" where
  "reportInputDependencyInfo module_name m_IDA st =
     (case fold report_step m_IDA (0, 0, 0, []) of
        (module_instructions, module_inputdep_instrs, inputdep_functions_count,
         input_dep_functions) \<Rightarrow>
          report_inputdep_data
            \<lparr>data_name = module_name, data_all_instrs_count = module_instructions,
             data_input_dep_instrs_count = module_inputdep_instrs,
             data_inputdep_functions_count = inputdep_functions_count,
             data_inputdep_functions = input_dep_functions\<rparr>
            (setStatsTypeName ''input_dependency_info'' st))"

text \<open>The entries written under a key, in the order written.\<close>

definition entries_for :: "string \<Rightarrow> Statistics \<Rightarrow> entry_value list" where
  "entries_for key st = map (\<lambda>e. snd (snd e)) (filter (\<lambda>e. fst (snd e) = key) (written st))"

section \<open>Properties of the merge\<close>

lemma merge_INPUT_DEP_right: "mergeDependencies x INPUT_DEP = INPUT_DEP"
  by (cases x) simp_all

lemma merge_INPUT_INDEP_right: "mergeDependencies x INPUT_INDEP = x"
  by (cases x) simp_all

lemma merge_INPUT_INDEP_left: "mergeDependencies INPUT_INDEP y = y"
  by (cases y) simp_all

lemma merge_commute: "mergeDependencies x y = mergeDependencies y x"
  by (cases x; cases y) (simp_all add: Un_commute)

lemma merge_idem: "mergeDependencies x x = x"
  by (cases x) simp_all

lemma merge_assoc:
  "mergeDependencies (mergeDependencies x y) z = mergeDependencies x (mergeDependencies y z)"
  by (cases x; cases y; cases z) (simp_all add: Un_assoc)

lemma merge_well_formed:
  "well_formed x \<Longrightarrow> well_formed y \<Longrightarrow> well_formed (mergeDependencies x y)"
  by (cases x; cases y) simp_all

lemma merge_isInputDep_left: "isInputDep x \<Longrightarrow> mergeDependencies x y = x"
  by (cases x) simp_all

lemma dep_le_refl: "dep_le x x"
  by (simp add: dep_le_def merge_idem)

lemma dep_le_INPUT_DEP: "dep_le x INPUT_DEP"
  by (simp add: dep_le_def merge_INPUT_DEP_right)

lemma dep_le_merge_left: "dep_le x (mergeDependencies x y)"
  unfolding dep_le_def by (simp add: merge_assoc [symmetric] merge_idem)

text \<open>
  Claim C6. The merge of dependency elements is commutative, associative and idempotent;
  \<open>INPUT_DEP\<close> absorbs every operand and \<open>INPUT_INDEP\<close> is the identity; merging two
  argument-dependent or value-dependent elements unions their sets (mixed kinds give the larger
  kind over the union); and the merge of two elements of the four cases is again one of the four
  cases: it is of exactly one kind, and its set is non-empty whenever the operands' sets are.
\<close>

theorem merge_lattice_laws:
  "mergeDependencies x y = mergeDependencies y x
   \<and> mergeDependencies (mergeDependencies x y) z = mergeDependencies x (mergeDependencies y z)
   \<and> mergeDependencies x x = x
   \<and> mergeDependencies x INPUT_DEP = INPUT_DEP
   \<and> mergeDependencies INPUT_DEP x = INPUT_DEP
   \<and> mergeDependencies x INPUT_INDEP = x
   \<and> mergeDependencies INPUT_INDEP x = x
   \<and> mergeDependencies (INPUT_ARG_DEP S) (INPUT_ARG_DEP T) = INPUT_ARG_DEP (S \<union> T)
   \<and> mergeDependencies (VALUE_DEP S) (VALUE_DEP T) = VALUE_DEP (S \<union> T)
   \<and> mergeDependencies (INPUT_ARG_DEP S) (VALUE_DEP T) = VALUE_DEP (S \<union> T)
   \<and> mergeDependencies (VALUE_DEP S) (INPUT_ARG_DEP T) = VALUE_DEP (S \<union> T)
   \<and> (mergeDependencies x y = INPUT_INDEP \<or> mergeDependencies x y = INPUT_DEP
        \<or> mergeDependencies x y = INPUT_ARG_DEP (getArgumentDependencies (mergeDependencies x y))
        \<or> mergeDependencies x y = VALUE_DEP (getValueDependencies (mergeDependencies x y)))
   \<and> (well_formed x \<and> well_formed y \<longrightarrow> well_formed (mergeDependencies x y))"
proof -
  have kinds: "d = INPUT_INDEP \<or> d = INPUT_DEP \<or> d = INPUT_ARG_DEP (getArgumentDependencies d)
      \<or> d = VALUE_DEP (getValueDependencies d)" for d :: "'a DepInfo"
    by (cases d) simp_all
  show ?thesis
    using merge_commute [of x y] merge_assoc [of x y z] merge_idem [of x]
      merge_INPUT_DEP_right [of x] merge_INPUT_INDEP_right [of x] merge_INPUT_INDEP_left [of x]
      merge_well_formed [of x y] kinds [of "mergeDependencies x y"]
    by simp
qed

theorem merge_lattice_laws_witness:
  "well_formed (INPUT_ARG_DEP {1::nat}) \<and> well_formed (VALUE_DEP {2::nat})
   \<and> mergeDependencies (INPUT_ARG_DEP {1::nat}) (VALUE_DEP {2}) = VALUE_DEP {1, 2}
   \<and> mergeDependencies (VALUE_DEP {2}) (INPUT_ARG_DEP {1::nat}) = VALUE_DEP {1, 2}
   \<and> well_formed (mergeDependencies (INPUT_ARG_DEP {1::nat}) (VALUE_DEP {2}))"
  using merge_lattice_laws [of "INPUT_ARG_DEP {1::nat}" "VALUE_DEP {2}" INPUT_INDEP "{1}" "{2}"]
  by (simp add: insert_commute)

section \<open>Properties of the analyser\<close>

lemma mergeDependencies_VD_absorbed:
  "isInputDep_V info \<Longrightarrow> mergeDependencies_VD info ctx = info"
  by (simp add: isInputDep_V_def mergeDependencies_VD_def merge_isInputDep_left)

lemma addOnDependencyInfo_merge:
  "addOnDependencyInfo s info = mergeDependencies info (m_nonDeterministicDeps s)"
  by (simp add: addOnDependencyInfo_def merge_isInputDep_left)

lemma addOnDependencyInfo_V_fold:
  "addOnDependencyInfo_V s info = fold_context_V (m_nonDeterministicDeps s) info"
  by (auto simp: addOnDependencyInfo_V_def fold_context_V_def mergeDependencies_VV_def
      updateCompositeValueDep_def Let_def fun_eq_iff split: option.split)

text \<open>
  Claim C3. Every read of the non-deterministic reflecting analyser
  (\<open>getInstructionDependencies\<close>, \<open>getValueDependencies\<close>,
  \<open>getCompositeValueDependencies\<close>) returns what the base class returns merged with the
  ambient context (an undefined value dependency stays undefined), and the read as coded, which
  skips the merge when the stored dependency is already \<open>INPUT_DEP\<close>, equals the naive read
  that always merges.
\<close>

theorem reads_merge_context:
  "getInstructionDependencies super s instr
     = mergeDependencies (super (reflecting s) instr) (m_nonDeterministicDeps s)
   \<and> getInstructionDependencies super s instr = getInstructionDependencies_naive super s instr
   \<and> getValueDependencies_BB superV s val
     = map_option (\<lambda>d. mergeDependencies_VD d (m_nonDeterministicDeps s)) (superV (reflecting s) val)
   \<and> getValueDependencies_BB superV s val = getValueDependencies_naive superV s val
   \<and> getCompositeValueDependencies superC s val instr
     = map_option (\<lambda>d. mergeDependencies_VD d (m_nonDeterministicDeps s))
         (superC (reflecting s) val instr)
   \<and> getCompositeValueDependencies superC s val instr
     = getCompositeValueDependencies_naive superC s val instr"
proof -
  have i: "getInstructionDependencies super s instr
     = mergeDependencies (super (reflecting s) instr) (m_nonDeterministicDeps s)"
    by (simp add: getInstructionDependencies_def Let_def merge_isInputDep_left)
  have v: "getValueDependencies_BB superV s val
     = map_option (\<lambda>d. mergeDependencies_VD d (m_nonDeterministicDeps s)) (superV (reflecting s) val)"
    by (simp add: getValueDependencies_BB_def mergeDependencies_VD_absorbed split: option.split)
  have c: "getCompositeValueDependencies superC s val instr
     = map_option (\<lambda>d. mergeDependencies_VD d (m_nonDeterministicDeps s))
         (superC (reflecting s) val instr)"
    by (simp add: getCompositeValueDependencies_def mergeDependencies_VD_absorbed
        split: option.split)
  from i v c show ?thesis
    by (simp add: getInstructionDependencies_naive_def getValueDependencies_naive_def
        getCompositeValueDependencies_naive_def)
qed

theorem reads_merge_context_witness:
  "getInstructionDependencies (\<lambda>b i. case m_instructionDependencies b i of
        None \<Rightarrow> INPUT_INDEP | Some d \<Rightarrow> d) (analiser0\<lparr>m_nonDeterministicDeps := VALUE_DEP {9}\<rparr>) 1
     = VALUE_DEP {1, 9}
   \<and> getValueDependencies_BB Reflecting_getValueDependencies
        (analiser0\<lparr>m_nonDeterministicDeps := VALUE_DEP {9}\<rparr>) 1
     = Some \<lparr>m_depInfo = VALUE_DEP {9}, m_elementDeps = [0 \<mapsto> INPUT_INDEP]\<rparr>
   \<and> getValueDependencies_BB Reflecting_getValueDependencies
        (analiser0\<lparr>m_nonDeterministicDeps := VALUE_DEP {9}\<rparr>) 2 = None"
  using reads_merge_context [of "\<lambda>b i. case m_instructionDependencies b i of
        None \<Rightarrow> INPUT_INDEP | Some d \<Rightarrow> d" "analiser0\<lparr>m_nonDeterministicDeps := VALUE_DEP {9}\<rparr>" 1
        Reflecting_getValueDependencies 1 "\<lambda>b v i. None"]
    reads_merge_context [of "\<lambda>b i. INPUT_DEP" "analiser0\<lparr>m_nonDeterministicDeps := VALUE_DEP {9}\<rparr>" 1
        Reflecting_getValueDependencies 2 "\<lambda>b v i. None"]
  by (simp add: analiser0_def indep_info_def Reflecting_getValueDependencies_def
      mergeDependencies_VD_def insert_commute)

text \<open>
  Claim C2, as amended. \<open>updateInstructionDependencies\<close>, \<open>updateReturnValueDependencies\<close>
  and \<open>updateCompositeValueDependencies\<close> hand the base class the dependency with the
  ambient context folded in (merged into the dependency and, for a composite, into each recorded
  element), so the entry carries the context before any read; the argument-dependency lookup
  folds the context in unless the dependency it found is \<open>INPUT_INDEP\<close>, which it returns
  as it is.
\<close>

theorem writes_fold_context:
  "updateInstructionDependencies superI instr info s
     = s\<lparr>reflecting := superI instr (mergeDependencies info (m_nonDeterministicDeps s)) (reflecting s)\<rparr>
   \<and> updateReturnValueDependencies superR vinfo s
     = s\<lparr>reflecting := superR (fold_context_V (m_nonDeterministicDeps s) vinfo) (reflecting s)\<rparr>
   \<and> updateCompositeValueDependencies superC val elInstr vinfo s
     = s\<lparr>reflecting := superC val elInstr (fold_context_V (m_nonDeterministicDeps s) vinfo)
                          (reflecting s)\<rparr>
   \<and> getArgumentValueDependecnies superA s argVal
     = (if isInputIndep_V (superA (reflecting s) argVal) then superA (reflecting s) argVal
        else fold_context_V (m_nonDeterministicDeps s) (superA (reflecting s) argVal))"
  by (simp add: updateInstructionDependencies_def updateReturnValueDependencies_def
      updateCompositeValueDependencies_def getArgumentValueDependecnies_def
      addOnDependencyInfo_merge addOnDependencyInfo_V_fold Let_def)

theorem writes_fold_context_witness:
  "m_instructionDependencies (reflecting
       (updateInstructionDependencies Reflecting_updateInstructionDependencies 3 INPUT_INDEP analiser0)) 3
     = Some INPUT_DEP
   \<and> m_depInfo (m_returnValueDependencies (reflecting
       (updateReturnValueDependencies Reflecting_updateReturnValueDependencies indep_info analiser0)))
     = INPUT_DEP
   \<and> m_elementDeps (m_returnValueDependencies (reflecting
       (updateReturnValueDependencies Reflecting_updateReturnValueDependencies indep_info analiser0))) 0
     = Some INPUT_DEP
   \<and> \<not> isInputIndep_V \<lparr>m_depInfo = INPUT_ARG_DEP {4}, m_elementDeps = Map.empty\<rparr>
   \<and> m_depInfo (getArgumentValueDependecnies
       (\<lambda>b v. \<lparr>m_depInfo = INPUT_ARG_DEP {4}, m_elementDeps = Map.empty\<rparr>) analiser0 1)
     = INPUT_DEP"
  using writes_fold_context [of Reflecting_updateInstructionDependencies 3 INPUT_INDEP analiser0
      Reflecting_updateReturnValueDependencies indep_info "\<lambda>v i d b. b" 1 1
      "\<lambda>b v. \<lparr>m_depInfo = INPUT_ARG_DEP {4}, m_elementDeps = Map.empty\<rparr>" 1]
  by (simp add: analiser0_def indep_info_def Reflecting_updateInstructionDependencies_def
      Reflecting_updateReturnValueDependencies_def fold_context_V_def isInputIndep_V_def
      updateInstructionDependencies_def updateReturnValueDependencies_def
      updateCompositeValueDependencies_def getArgumentValueDependecnies_def
      addOnDependencyInfo_merge addOnDependencyInfo_V_fold)

text \<open>
  Claim C2 as stated fails: under an \<open>INPUT_DEP\<close> context, \<open>updateValueDependencies\<close>
  stores an input-independent dependency as given, and the argument-dependency lookup returns an
  input-independent dependency as found; neither carries the context.
\<close>

theorem writes_fold_context_counterexample:
  "m_nonDeterministicDeps analiser0 = INPUT_DEP
   \<and> m_valueDependencies (reflecting
       (updateValueDependencies Reflecting_updateValueDependencies 7 indep_info False analiser0)) 7
     = Some indep_info
   \<and> m_valueDependencies (reflecting
       (updateValueDependencies Reflecting_updateValueDependencies 7 indep_info False analiser0)) 7
     \<noteq> Some (fold_context_V (m_nonDeterministicDeps analiser0) indep_info)
   \<and> getArgumentValueDependecnies indep_lookup analiser0 7 = indep_info
   \<and> getArgumentValueDependecnies indep_lookup analiser0 7
     \<noteq> fold_context_V (m_nonDeterministicDeps analiser0) indep_info"
proof -
  have differ: "indep_info \<noteq> fold_context_V INPUT_DEP indep_info"
  proof
    assume "indep_info = fold_context_V INPUT_DEP indep_info"
    then have "m_depInfo indep_info = m_depInfo (fold_context_V INPUT_DEP indep_info)" by simp
    then show False by (simp add: indep_info_def fold_context_V_def)
  qed
  have ctx: "m_nonDeterministicDeps analiser0 = INPUT_DEP"
    by (simp add: analiser0_def)
  have stored: "m_valueDependencies (reflecting
       (updateValueDependencies Reflecting_updateValueDependencies 7 indep_info False analiser0)) 7
     = Some indep_info"
    by (simp add: updateValueDependencies_def Reflecting_updateValueDependencies_def)
  have looked_up: "getArgumentValueDependecnies indep_lookup analiser0 7 = indep_info"
    by (simp add: getArgumentValueDependecnies_def isInputIndep_V_def indep_info_def
        indep_lookup_def)
  from differ ctx stored looked_up show ?thesis by simp
qed

lemma dep_le_merge_mono:
  "dep_le a a' \<Longrightarrow> dep_le b b' \<Longrightarrow> dep_le (mergeDependencies a b) (mergeDependencies a' b')"
proof -
  assume a: "dep_le a a'" and b: "dep_le b b'"
  have "mergeDependencies (mergeDependencies a b) (mergeDependencies a' b')
      = mergeDependencies a (mergeDependencies b (mergeDependencies a' b'))"
    by (simp add: merge_assoc)
  also have "\<dots> = mergeDependencies a (mergeDependencies a' (mergeDependencies b b'))"
    using merge_assoc [of b a' b'] merge_commute [of b a'] merge_assoc [of a' b b'] by simp
  also have "\<dots> = mergeDependencies (mergeDependencies a a') (mergeDependencies b b')"
    by (simp add: merge_assoc)
  also have "\<dots> = mergeDependencies a' b'"
    using a b by (simp add: dep_le_def)
  finally show ?thesis by (simp add: dep_le_def)
qed

lemma dep_le_finalizeArgumentDependencies:
  "dep_le d (finalizeArgumentDependencies dependentArgs d)"
  by (simp add: finalizeArgumentDependencies_def dep_le_refl dep_le_INPUT_DEP)

lemma dep_le_finalizeValueDependencies:
  "dep_le d (finalizeValueDependencies globalsDeps d)"
  by (simp add: finalizeValueDependencies_def dep_le_refl dep_le_INPUT_DEP)

lemma finalizeValueDependencies_other:
  "\<not> isValueDep d \<Longrightarrow> finalizeValueDependencies globalsDeps d = d"
  by (simp add: finalizeValueDependencies_def)

lemma reflecting_finalizeResults:
  "reflecting (finalizeResults super dependentArgs s)
     = (super dependentArgs (reflecting s))
         \<lparr>m_is_inputDep :=
            (if isInputDep (m_nonDeterministicDeps s)
                \<or> (isInputArgumentDep (m_nonDeterministicDeps s)
                    \<and> haveIntersection dependentArgs
                          (getArgumentDependencies (m_nonDeterministicDeps s)))
             then True else m_is_inputDep (super dependentArgs (reflecting s)))\<rparr>"
  by (simp add: finalizeResults_def set_is_inputDep_def Let_def)

lemma context_finalizeResults:
  "m_nonDeterministicDeps (finalizeResults super dependentArgs s) = m_nonDeterministicDeps s"
  by (simp add: finalizeResults_def set_is_inputDep_def Let_def)

lemma context_finalizeGlobals:
  "m_nonDeterministicDeps (finalizeGlobals super globalsDeps s)
     = finalizeValueDependencies globalsDeps (m_nonDeterministicDeps s)"
  by (simp add: finalizeGlobals_def set_is_inputDep_def Let_def finalizeValueDependencies_other)

lemma reflecting_finalizeGlobals:
  "reflecting (finalizeGlobals super globalsDeps s)
     = (super globalsDeps (reflecting s))
         \<lparr>m_is_inputDep :=
            (if isValueDep (m_nonDeterministicDeps s)
             then m_is_inputDep (super globalsDeps (reflecting s))
                  \<or> isInputDep (finalizeValueDependencies globalsDeps (m_nonDeterministicDeps s))
             else m_is_inputDep (super globalsDeps (reflecting s)))\<rparr>"
proof (cases "isValueDep (m_nonDeterministicDeps s)")
  case True
  then show ?thesis
    by (simp add: finalizeGlobals_def set_is_inputDep_def Let_def)
next
  case False
  then have "getValueDependencies (m_nonDeterministicDeps s) = {}"
    by (cases "m_nonDeterministicDeps s") simp_all
  with False show ?thesis
    by (simp add: finalizeGlobals_def set_is_inputDep_def Let_def)
qed

text \<open>
  Claim C4. After \<open>finalizeResults\<close> the block is marked input dependent whenever its ambient
  context is \<open>INPUT_DEP\<close>, or is argument dependent on a set that intersects the confirmed
  arguments. \<open>finalizeGlobals\<close> applies the promotion of value-dependent tags to the ambient
  context: a context that is value dependent on a set intersecting the confirmed globals becomes
  \<open>INPUT_DEP\<close> and the block is marked input dependent; and a stored instruction tag
  \<open>VALUE_DEP(S)\<close> with \<open>S\<close> intersecting the confirmed globals becomes \<open>INPUT_DEP\<close>.
\<close>

theorem finalize_marks_block:
  "(isInputDep (m_nonDeterministicDeps s)
      \<or> (isInputArgumentDep (m_nonDeterministicDeps s)
          \<and> haveIntersection dependentArgs (getArgumentDependencies (m_nonDeterministicDeps s)))
     \<longrightarrow> m_is_inputDep (reflecting (finalizeResults super dependentArgs s)))
   \<and> m_nonDeterministicDeps (finalizeGlobals superG globalsDeps s)
       = finalizeValueDependencies globalsDeps (m_nonDeterministicDeps s)
   \<and> (isValueDep (m_nonDeterministicDeps s)
        \<and> haveIntersection globalsDeps (getValueDependencies (m_nonDeterministicDeps s))
     \<longrightarrow> m_nonDeterministicDeps (finalizeGlobals superG globalsDeps s) = INPUT_DEP
         \<and> m_is_inputDep (reflecting (finalizeGlobals superG globalsDeps s)))
   \<and> (m_instructionDependencies (reflecting s) instr = Some (VALUE_DEP S)
        \<and> haveIntersection globalsDeps S
     \<longrightarrow> m_instructionDependencies
           (reflecting (finalizeGlobals Base_finalizeGlobals globalsDeps s)) instr = Some INPUT_DEP)"
proof -
  have promoted: "finalizeValueDependencies globalsDeps (m_nonDeterministicDeps s) = INPUT_DEP"
    if "isValueDep (m_nonDeterministicDeps s)
        \<and> haveIntersection globalsDeps (getValueDependencies (m_nonDeterministicDeps s))"
    using that by (simp add: finalizeValueDependencies_def)
  have stored: "m_instructionDependencies
           (reflecting (finalizeGlobals Base_finalizeGlobals globalsDeps s)) instr = Some INPUT_DEP"
    if "m_instructionDependencies (reflecting s) instr = Some (VALUE_DEP S)
        \<and> haveIntersection globalsDeps S"
    using that
    by (simp add: reflecting_finalizeGlobals Base_finalizeGlobals_def finalize_stored_def
        finalizeValueDependencies_def)
  from promoted stored show ?thesis
    by (simp add: reflecting_finalizeResults reflecting_finalizeGlobals context_finalizeGlobals)
qed

theorem finalize_marks_block_witness:
  "isInputDep (m_nonDeterministicDeps analiser0)
   \<and> m_is_inputDep (reflecting (finalizeResults (\<lambda>args b. b) Map.empty analiser0))
   \<and> isInputArgumentDep (INPUT_ARG_DEP {1, 2::nat})
   \<and> haveIntersection [2 \<mapsto> INPUT_DEP] (getArgumentDependencies (INPUT_ARG_DEP {1, 2::nat}))
   \<and> m_is_inputDep (reflecting (finalizeResults (\<lambda>args b. b) [2 \<mapsto> INPUT_DEP]
         (analiser0\<lparr>m_nonDeterministicDeps := INPUT_ARG_DEP {1, 2}\<rparr>)))
   \<and> isValueDep (VALUE_DEP {5::nat})
   \<and> haveIntersection [5 \<mapsto> INPUT_DEP] (getValueDependencies (VALUE_DEP {5::nat}))
   \<and> m_nonDeterministicDeps (finalizeGlobals Base_finalizeGlobals [5 \<mapsto> INPUT_DEP]
         (analiser0\<lparr>m_nonDeterministicDeps := VALUE_DEP {5}\<rparr>)) = INPUT_DEP
   \<and> m_is_inputDep (reflecting (finalizeGlobals Base_finalizeGlobals [5 \<mapsto> INPUT_DEP]
         (analiser0\<lparr>m_nonDeterministicDeps := VALUE_DEP {5}\<rparr>)))
   \<and> m_instructionDependencies (reflecting (finalizeGlobals Base_finalizeGlobals [5 \<mapsto> INPUT_DEP]
         (analiser0\<lparr>m_nonDeterministicDeps := VALUE_DEP {5}\<rparr>))) 2 = Some INPUT_DEP"
  using finalize_marks_block [of analiser0 Map.empty "\<lambda>args b. b" Base_finalizeGlobals Map.empty
      1 "{1}"]
    finalize_marks_block [of "analiser0\<lparr>m_nonDeterministicDeps := INPUT_ARG_DEP {1, 2}\<rparr>"
      "[2 \<mapsto> INPUT_DEP]" "\<lambda>args b. b" Base_finalizeGlobals Map.empty 1 "{1}"]
    finalize_marks_block [of "analiser0\<lparr>m_nonDeterministicDeps := VALUE_DEP {5}\<rparr>"
      Map.empty "\<lambda>args b. b" Base_finalizeGlobals "[5 \<mapsto> INPUT_DEP]" 2 "{5}"]
  by (simp add: analiser0_def haveIntersection_def finalizeResults_def finalizeGlobals_def
      set_is_inputDep_def Let_def Base_finalizeGlobals_def finalize_stored_def
      finalizeValueDependencies_def)

lemma rel_option_map_right:
  "(\<And>x. R x (f x)) \<Longrightarrow> rel_option R z (map_option f z)"
  by (cases z) simp_all

lemma V_le_finalize_V: "(\<And>d. dep_le d (f d)) \<Longrightarrow> V_le info (finalize_V f info)"
  by (simp add: V_le_def finalize_V_def rel_option_map_right)

lemma finalize_stored_le:
  assumes f: "\<And>d. dep_le d (f d)"
  shows "(\<forall>instr. rel_option dep_le (m_instructionDependencies b instr)
                 (m_instructionDependencies (finalize_stored f b) instr))
      \<and> (\<forall>val. rel_option V_le (m_valueDependencies b val)
                 (m_valueDependencies (finalize_stored f b) val))
      \<and> V_le (m_returnValueDependencies b) (m_returnValueDependencies (finalize_stored f b))
      \<and> m_is_inputDep (finalize_stored f b) = m_is_inputDep b"
  using f
  by (simp add: finalize_stored_def rel_option_map_right V_le_finalize_V)

text \<open>
  Claim C5. Finalization only raises: after \<open>finalizeResults\<close> and after
  \<open>finalizeGlobals\<close> every stored instruction dependency, every stored value dependency with
  each of its recorded elements, the return value dependency and the ambient context are above or
  equal to what they were in the order of the lattice, no entry is lost and a raised block flag
  stays raised; hence what a read gives for an instruction (the stored dependency merged with the
  context) is above or equal to what it gave before.
\<close>

theorem finalize_monotone:
  "analiser_le s (finalizeResults Reflecting_finalizeResults dependentArgs s)
   \<and> analiser_le s (finalizeGlobals Base_finalizeGlobals globalsDeps s)
   \<and> (analiser_le s s' \<and> m_instructionDependencies (reflecting s) instr = Some d
        \<longrightarrow> (\<exists>d'. m_instructionDependencies (reflecting s') instr = Some d' \<and> dep_le d d'
                  \<and> dep_le (mergeDependencies d (m_nonDeterministicDeps s))
                       (mergeDependencies d' (m_nonDeterministicDeps s'))))"
proof -
  note a = finalize_stored_le [of "finalizeArgumentDependencies dependentArgs" "reflecting s",
      OF dep_le_finalizeArgumentDependencies]
  note g = finalize_stored_le [of "finalizeValueDependencies globalsDeps" "reflecting s",
      OF dep_le_finalizeValueDependencies]
  have r: "analiser_le s (finalizeResults Reflecting_finalizeResults dependentArgs s)"
    using a
    by (simp add: analiser_le_def reflecting_finalizeResults context_finalizeResults
        Reflecting_finalizeResults_def dep_le_refl)
  have gl: "analiser_le s (finalizeGlobals Base_finalizeGlobals globalsDeps s)"
    using g
    by (simp add: analiser_le_def reflecting_finalizeGlobals context_finalizeGlobals
        Base_finalizeGlobals_def dep_le_finalizeValueDependencies)
  have rd: "\<exists>d'. m_instructionDependencies (reflecting s') instr = Some d' \<and> dep_le d d'
                  \<and> dep_le (mergeDependencies d (m_nonDeterministicDeps s))
                       (mergeDependencies d' (m_nonDeterministicDeps s'))"
    if le: "analiser_le s s'" and st: "m_instructionDependencies (reflecting s) instr = Some d"
  proof -
    from le have "rel_option dep_le (m_instructionDependencies (reflecting s) instr)
                 (m_instructionDependencies (reflecting s') instr)"
      and c: "dep_le (m_nonDeterministicDeps s) (m_nonDeterministicDeps s')"
      by (simp_all add: analiser_le_def)
    with st obtain d' where d': "m_instructionDependencies (reflecting s') instr = Some d'"
      and "dep_le d d'"
      by (cases "m_instructionDependencies (reflecting s') instr") auto
    with c dep_le_merge_mono [of d d' "m_nonDeterministicDeps s" "m_nonDeterministicDeps s'"]
    show ?thesis by simp
  qed
  from r gl rd show ?thesis by blast
qed

theorem finalize_monotone_witness:
  "m_instructionDependencies (reflecting analiser0) 1 = Some (INPUT_ARG_DEP {1})
   \<and> m_instructionDependencies
       (reflecting (finalizeResults Reflecting_finalizeResults [1 \<mapsto> INPUT_DEP] analiser0)) 1
     = Some INPUT_DEP
   \<and> dep_le (INPUT_ARG_DEP {1::nat}) INPUT_DEP
   \<and> analiser_le analiser0 (finalizeResults Reflecting_finalizeResults [1 \<mapsto> INPUT_DEP] analiser0)
   \<and> m_instructionDependencies (reflecting analiser0) 2 = Some (VALUE_DEP {5})
   \<and> m_instructionDependencies
       (reflecting (finalizeGlobals Base_finalizeGlobals [5 \<mapsto> INPUT_DEP] analiser0)) 2
     = Some INPUT_DEP
   \<and> analiser_le analiser0 (finalizeGlobals Base_finalizeGlobals [5 \<mapsto> INPUT_DEP] analiser0)"
  using finalize_monotone [of analiser0 "[1 \<mapsto> INPUT_DEP]" "[5 \<mapsto> INPUT_DEP]"
      "finalizeResults Reflecting_finalizeResults [1 \<mapsto> INPUT_DEP] analiser0" 1 "INPUT_ARG_DEP {1}"]
  by (simp add: analiser0_def reflecting_finalizeResults reflecting_finalizeGlobals
      Reflecting_finalizeResults_def Base_finalizeGlobals_def finalize_stored_def
      finalizeArgumentDependencies_def finalizeValueDependencies_def haveIntersection_def
      dep_le_def)

section \<open>Properties of the module analysis cache\<close>

lemma run_success:
  "run isLib analyze Fs m = Inr m' \<Longrightarrow>
     distinct (filter (\<lambda>F. \<not> isLib F) Fs)
     \<and> (\<forall>F\<in>set Fs. \<not> isLib F \<longrightarrow> m (Some F) = None \<and> m' (Some F) = Some (Some (analyze F)))
     \<and> (\<forall>k. k \<notin> Some ` {F \<in> set Fs. \<not> isLib F} \<longrightarrow> m' k = m k)"
proof (induction Fs arbitrary: m)
  case Nil
  then show ?case by simp
next
  case (Cons F Fs)
  show ?case
  proof (cases "isLib F")
    case True
    with Cons.prems have "run isLib analyze Fs m = Inr m'" by simp
    from Cons.IH [OF this] True show ?thesis by auto
  next
    case False
    with Cons.prems have free: "m (Some F) = None"
      and rest: "run isLib analyze Fs (m(Some F \<mapsto> Some (analyze F))) = Inr m'"
      by (auto simp: Let_def split: if_splits)
    note ih = Cons.IH [OF rest]
    from ih have notin: "F \<notin> set (filter (\<lambda>F. \<not> isLib F) Fs)"
      by (auto split: if_splits)
    from ih notin have "m' (Some F) = Some (Some (analyze F))"
      by (auto simp: image_iff)
    with ih notin free False show ?thesis
      by (auto simp: image_iff split: if_splits)
  qed
qed

lemma run_total:
  "distinct (filter (\<lambda>F. \<not> isLib F) Fs) \<Longrightarrow> \<forall>F\<in>set Fs. \<not> isLib F \<longrightarrow> m (Some F) = None \<Longrightarrow>
     \<exists>m'. run isLib analyze Fs m = Inr m'"
proof (induction Fs arbitrary: m)
  case Nil
  then show ?case by simp
next
  case (Cons F Fs)
  show ?case
  proof (cases "isLib F")
    case True
    with Cons show ?thesis by simp
  next
    case False
    with Cons.prems have free: "m (Some F) = None"
      and notin: "F \<notin> set (filter (\<lambda>F. \<not> isLib F) Fs)"
      and dist: "distinct (filter (\<lambda>F. \<not> isLib F) Fs)"
      by auto
    from Cons.prems(2) notin
    have "\<forall>G\<in>set Fs. \<not> isLib G \<longrightarrow> (m(Some F \<mapsto> Some (analyze F))) (Some G) = None"
      by auto
    from Cons.IH [OF dist this] obtain m'
      where "run isLib analyze Fs (m(Some F \<mapsto> Some (analyze F))) = Inr m'" by blast
    moreover have "run isLib analyze (F # Fs) m
        = run isLib analyze Fs (m(Some F \<mapsto> Some (analyze F)))"
      using free False by (simp add: Let_def)
    ultimately show ?thesis by simp
  qed
qed

lemma run_fails:
  "F \<in> set Fs \<Longrightarrow> \<not> isLib F \<Longrightarrow> m (Some F) \<noteq> None \<Longrightarrow> run isLib analyze Fs m = Inl AssertionFailure"
proof (induction Fs arbitrary: m)
  case Nil then show ?case by simp
next
  case (Cons G Gs)
  then show ?case by (auto simp: Let_def)
qed

text \<open>
  Claim C1. A query about a function that has no entry in the cache answers \<open>false\<close> without
  raising, in each of the three forms (function and instruction, instruction alone with its owning
  function resolved through its block, basic block), and \<open>getAnalysisInfo\<close> gives the null
  handle; for a function registered with a result, each query gives what that result answers and
  \<open>getAnalysisInfo\<close> gives the result itself.
\<close>

theorem cache_queries:
  "(m F = None \<longrightarrow>
      isInputDependent_FI m F instr = Inr False
      \<and> (inst_getParent instr = Some block \<and> bb_getParent block = F \<and> F \<noteq> None
            \<longrightarrow> isInputDependent_I m instr = Inr False)
      \<and> (bb_getParent block = F \<longrightarrow> isInputDependent_B m block = Inr False)
      \<and> getAnalysisInfo m F = None)
   \<and> (m F = Some (Some res) \<longrightarrow>
      isInputDependent_FI m F instr = Inr (res_isInputDependent res instr)
      \<and> (inst_getParent instr = Some block \<and> bb_getParent block = F \<and> F \<noteq> None
            \<longrightarrow> isInputDependent_I m instr = Inr (res_isInputDependent res instr))
      \<and> (bb_getParent block = F
            \<longrightarrow> isInputDependent_B m block = Inr (res_isInputDependentBlock res block))
      \<and> getAnalysisInfo m F = Some res)"
  by (auto simp: isInputDependent_FI_def isInputDependent_I_def isInputDependent_B_def
      getAnalysisInfo_def Let_def)

theorem cache_queries_witness:
  "cache0 (Some 2) = None
   \<and> inst_getParent (instr_in 2) = Some (block_in 2) \<and> bb_getParent (block_in 2) = Some 2
   \<and> isInputDependent_FI cache0 (Some 2) (instr_in 2) = Inr False
   \<and> isInputDependent_I cache0 (instr_in 2) = Inr False
   \<and> isInputDependent_B cache0 (block_in 2) = Inr False
   \<and> getAnalysisInfo cache0 (Some 2) = None
   \<and> cache0 (Some 1) = Some (Some res0)
   \<and> inst_getParent (instr_in 1) = Some (block_in 1) \<and> bb_getParent (block_in 1) = Some 1
   \<and> isInputDependent_FI cache0 (Some 1) (instr_in 1) = Inr True
   \<and> isInputDependent_I cache0 (instr_in 1) = Inr True
   \<and> isInputDependent_B cache0 (block_in 1) = Inr True
   \<and> getAnalysisInfo cache0 (Some 1) = Some res0"
  using cache_queries [of cache0 "Some 2" "instr_in 2" "block_in 2" res0]
    cache_queries [of cache0 "Some 1" "instr_in 1" "block_in 1" res0]
  by (simp add: cache0_def instr_in_def block_in_def res0_def)

text \<open>
  Claim C7. \<open>insertAnalysisInfo\<close> on a function that already has an entry returns failure
  and leaves the table, hence the stored summary, as it was; otherwise it stores the summary and
  returns success. A run that completes has analysed pairwise distinct functions, none
  of which had an entry before, has given each exactly its one new summary, and has left every
  earlier entry as it was; a run that meets a function with an entry stops at its assertion; and
  on distinct functions without entries the run completes.
\<close>

theorem insert_once:
  "(m F \<noteq> None \<longrightarrow> insertAnalysisInfo F info m = (False, m))
   \<and> (m F = None \<longrightarrow> insertAnalysisInfo F info m = (True, m(F \<mapsto> info)))
   \<and> (\<forall>G. m G \<noteq> None \<longrightarrow> snd (insertAnalysisInfo F info m) G = m G)
   \<and> (run isLib analyze Fs m = Inr m' \<longrightarrow>
         distinct (filter (\<lambda>F. \<not> isLib F) Fs)
         \<and> (\<forall>F\<in>set Fs. \<not> isLib F \<longrightarrow> m (Some F) = None \<and> m' (Some F) = Some (Some (analyze F)))
         \<and> (\<forall>G. m G \<noteq> None \<longrightarrow> m' G = m G))
   \<and> (H \<in> set Fs \<and> \<not> isLib H \<and> m (Some H) \<noteq> None
         \<longrightarrow> run isLib analyze Fs m = Inl AssertionFailure)
   \<and> (distinct Fs \<and> (\<forall>F\<in>set Fs. m (Some F) = None) \<longrightarrow> (\<exists>m'. run isLib analyze Fs m = Inr m'))"
proof -
  have ins: "(m F \<noteq> None \<longrightarrow> insertAnalysisInfo F info m = (False, m))
      \<and> (m F = None \<longrightarrow> insertAnalysisInfo F info m = (True, m(F \<mapsto> info)))
      \<and> (\<forall>G. m G \<noteq> None \<longrightarrow> snd (insertAnalysisInfo F info m) G = m G)"
    by (auto simp: insertAnalysisInfo_def)
  have ok: "distinct (filter (\<lambda>F. \<not> isLib F) Fs)
         \<and> (\<forall>F\<in>set Fs. \<not> isLib F \<longrightarrow> m (Some F) = None \<and> m' (Some F) = Some (Some (analyze F)))
         \<and> (\<forall>G. m G \<noteq> None \<longrightarrow> m' G = m G)" if r: "run isLib analyze Fs m = Inr m'"
  proof -
    note s = run_success [OF r]
    have "m' G = m G" if "m G \<noteq> None" for G
    proof -
      from that s have "G \<notin> Some ` {F \<in> set Fs. \<not> isLib F}" by auto
      with s show ?thesis by blast
    qed
    with s show ?thesis by blast
  qed
  have total: "\<exists>m'. run isLib analyze Fs m = Inr m'"
    if "distinct Fs \<and> (\<forall>F\<in>set Fs. m (Some F) = None)"
    using that by (intro run_total) (auto simp: distinct_filter)
  from ins ok total run_fails [of H Fs isLib m analyze] show ?thesis by blast
qed

theorem insert_once_witness:
  "cache0 (Some 1) \<noteq> None \<and> insertAnalysisInfo (Some 1) None cache0 = (False, cache0)
   \<and> cache0 (Some 2) = None
   \<and> insertAnalysisInfo (Some 2) (Some res0) cache0 = (True, cache0(Some 2 \<mapsto> Some res0))
   \<and> run (\<lambda>F. F = 5) (\<lambda>F. res0) [2, 5, 3] cache0
       = Inr (cache0(Some 2 \<mapsto> Some res0, Some 3 \<mapsto> Some res0))
   \<and> (cache0(Some 2 \<mapsto> Some res0, Some 3 \<mapsto> Some res0)) (Some 1) = cache0 (Some 1)
   \<and> run (\<lambda>F. F = 5) (\<lambda>F. res0) [2, 1] cache0 = Inl AssertionFailure
   \<and> (\<exists>m'. run (\<lambda>F. F = 5) (\<lambda>F. res0) [2, 5, 3] cache0 = Inr m')"
  using insert_once [of cache0 "Some 1" None "\<lambda>F. F = 5" "\<lambda>F. res0" "[2, 5, 3]"
      "cache0(Some 2 \<mapsto> Some res0, Some 3 \<mapsto> Some res0)" 1]
    insert_once [of cache0 "Some 2" "Some res0" "\<lambda>F. F = 5" "\<lambda>F. res0" "[2, 1]"
      "cache0" 1]
  by (simp add: cache0_def insertAnalysisInfo_def)

section \<open>Properties of the library function model\<close>

lemma fold_add_present: "m n \<noteq> None \<Longrightarrow> fold addLibFunctionInfo xs m n = m n"
proof (induction xs arbitrary: m)
  case Nil
  then show ?case by simp
next
  case (Cons x xs)
  from Cons.prems have "addLibFunctionInfo x m n = m n"
    by (auto simp: addLibFunctionInfo_def)
  with Cons.prems Cons.IH [of "addLibFunctionInfo x m"] show ?case by simp
qed

lemma fold_add_registered:
  "n \<in> getName ` set xs \<Longrightarrow> fold addLibFunctionInfo xs m n \<noteq> None"
proof (induction xs arbitrary: m)
  case Nil
  then show ?case by simp
next
  case (Cons x xs)
  show ?case
  proof (cases "addLibFunctionInfo x m n = None")
    case True
    then have "n \<noteq> getName x" by (auto simp: addLibFunctionInfo_def split: if_splits)
    with Cons.prems have "n \<in> getName ` set xs" by auto
    from Cons.IH [OF this] show ?thesis by simp
  next
    case False
    with fold_add_present [of "addLibFunctionInfo x m" n xs] show ?thesis by simp
  qed
qed

lemma fold_add_origin:
  "fold addLibFunctionInfo xs m n = Some e \<Longrightarrow> m n = Some e \<or> (e \<in> set xs \<and> getName e = n)"
proof (induction xs arbitrary: m)
  case Nil
  then show ?case by simp
next
  case (Cons x xs)
  from Cons.prems have "fold addLibFunctionInfo xs (addLibFunctionInfo x m) n = Some e" by simp
  from Cons.IH [OF this] show ?case
    by (auto simp: addLibFunctionInfo_def split: if_splits)
qed

text \<open>
  Claim C8. \<open>resolveLibFunctionInfo\<close> binds a model once: the first resolution of an
  unresolved model stores the model resolved for the symbol; on a model that is already resolved
  the call returns normally with the table unchanged; hence after any resolution that returned,
  a second resolution under the same name (for the same symbol or any other) is a no-op and
  not an error.
\<close>

theorem resolve_once:
  "(m demangledName = Some libF \<and> \<not> isResolved libF
      \<longrightarrow> resolveLibFunctionInfo F demangledName m = Inr (m(demangledName \<mapsto> resolve F libF)))
   \<and> (m demangledName = Some libF \<and> isResolved libF
      \<longrightarrow> resolveLibFunctionInfo F demangledName m = Inr m)
   \<and> (resolveLibFunctionInfo F demangledName m = Inr m1
      \<longrightarrow> resolveLibFunctionInfo G demangledName m1 = Inr m1)"
  by (auto simp: resolveLibFunctionInfo_def getLibFunctionInfo_def resolve_def
      split: option.splits if_splits)

theorem resolve_once_witness:
  "resolveLibFunctionInfo (5::nat) ''strlen'' [''strlen'' \<mapsto> builtin_strlen]
     = Inr [''strlen'' \<mapsto> resolve 5 builtin_strlen]
   \<and> [''strlen'' \<mapsto> resolve (5::nat) builtin_strlen] ''strlen'' = Some (resolve 5 builtin_strlen)
   \<and> isResolved (resolve (5::nat) builtin_strlen)
   \<and> resolveLibFunctionInfo 5 ''strlen'' [''strlen'' \<mapsto> resolve 5 builtin_strlen]
     = Inr [''strlen'' \<mapsto> resolve 5 builtin_strlen]"
  using resolve_once [of "[''strlen'' \<mapsto> resolve 5 builtin_strlen]" "''strlen''"
      "resolve 5 builtin_strlen" 5 "[''strlen'' \<mapsto> resolve 5 builtin_strlen]" 5]
    resolve_once [of "[''strlen'' \<mapsto> builtin_strlen]" "''strlen''"
      "builtin_strlen" 5 "[''strlen'' \<mapsto> resolve 5 builtin_strlen]" 5]
  by (simp add: resolveLibFunctionInfo_def getLibFunctionInfo_def resolve_def builtin_strlen_def)

text \<open>
  Claim C9. \<open>addLibFunctionInfo\<close> on a name that is in the table leaves the table, hence the
  existing entry, unchanged and discards the new model. Since \<open>setup\<close> registers the
  C-library and string-library models before the configuration entries, every name registered by
  a built-in model has, after setup with configuration entries, the very entry it has after setup
  without them, and starting from the empty table that entry is one of the built-in models.
\<close>

theorem add_keeps_existing:
  "(m (getName funcInfo) \<noteq> None \<longrightarrow> addLibFunctionInfo funcInfo m = m)
   \<and> (n \<in> getName ` (set clibInfo \<union> set stlStringInfo) \<longrightarrow>
        setup_libraryInfo clibInfo stlStringInfo (Some entries) m n
          = setup_libraryInfo clibInfo stlStringInfo None m n
        \<and> setup_libraryInfo clibInfo stlStringInfo None m n \<noteq> None
        \<and> (\<forall>e. setup_libraryInfo clibInfo stlStringInfo (Some entries) Map.empty n = Some e
              \<longrightarrow> e \<in> set clibInfo \<union> set stlStringInfo))"
proof -
  have present: "fold addLibFunctionInfo stlStringInfo (fold addLibFunctionInfo clibInfo k) n \<noteq> None"
    if "n \<in> getName ` (set clibInfo \<union> set stlStringInfo)" for k :: "('a, 'b) LibraryInfo"
  proof (cases "n \<in> getName ` set clibInfo")
    case True
    from fold_add_registered [OF this] have "fold addLibFunctionInfo clibInfo k n \<noteq> None" .
    with fold_add_present [of "fold addLibFunctionInfo clibInfo k" n stlStringInfo]
    show ?thesis by simp
  next
    case False
    with that have "n \<in> getName ` set stlStringInfo" by auto
    from fold_add_registered [OF this] show ?thesis .
  qed
  have origin: "e \<in> set clibInfo \<union> set stlStringInfo"
    if n: "n \<in> getName ` (set clibInfo \<union> set stlStringInfo)"
      and e: "setup_libraryInfo clibInfo stlStringInfo (Some entries) Map.empty n = Some e" for e
  proof -
    let ?m2 = "fold addLibFunctionInfo stlStringInfo (fold addLibFunctionInfo clibInfo Map.empty)"
    from present [OF n] have p: "?m2 n \<noteq> None" .
    from e p fold_add_present [of ?m2 n entries] have "?m2 n = Some e"
      by (simp add: setup_libraryInfo_def)
    from fold_add_origin [OF this] have
      "fold addLibFunctionInfo clibInfo Map.empty n = Some e \<or> e \<in> set stlStringInfo" by blast
    then show ?thesis using fold_add_origin [of clibInfo Map.empty n e] by auto
  qed
  have "addLibFunctionInfo funcInfo m = m" if "m (getName funcInfo) \<noteq> None"
    using that by (simp add: addLibFunctionInfo_def)
  moreover have "setup_libraryInfo clibInfo stlStringInfo (Some entries) m n
          = setup_libraryInfo clibInfo stlStringInfo None m n
        \<and> setup_libraryInfo clibInfo stlStringInfo None m n \<noteq> None"
    if "n \<in> getName ` (set clibInfo \<union> set stlStringInfo)"
    using present [OF that, of m]
      fold_add_present [of "fold addLibFunctionInfo stlStringInfo (fold addLibFunctionInfo clibInfo m)"
        n entries]
    by (simp add: setup_libraryInfo_def)
  ultimately show ?thesis using origin by blast
qed

theorem add_keeps_existing_witness:
  "[''strlen'' \<mapsto> builtin_strlen] (getName config_strlen) \<noteq> None
   \<and> addLibFunctionInfo config_strlen [''strlen'' \<mapsto> builtin_strlen] = [''strlen'' \<mapsto> builtin_strlen]
   \<and> ''strlen'' \<in> getName ` (set [builtin_strlen] \<union> set [builtin_append])
   \<and> setup_libraryInfo [builtin_strlen] [builtin_append] (Some [config_strlen]) Map.empty ''strlen''
       = Some builtin_strlen
   \<and> setup_libraryInfo [builtin_strlen] [builtin_append] None Map.empty ''strlen''
       = Some builtin_strlen
   \<and> returnDependency builtin_strlen \<noteq> returnDependency config_strlen"
  using add_keeps_existing [of "[''strlen'' \<mapsto> builtin_strlen]" config_strlen "''strlen''"
      "[builtin_strlen]" "[builtin_append]" "[config_strlen]"]
  by (simp add: setup_libraryInfo_def addLibFunctionInfo_def builtin_strlen_def
      builtin_append_def config_strlen_def)

section \<open>Properties of the statistics report\<close>

lemma fold_report_step:
  "fold report_step xs (a, b, c, d) =
     (a + sum_list (map (\<lambda>p. get_function_instrs_count (fst p)) xs),
      b + sum_list (map (\<lambda>p. get_input_indep_count (snd p)) xs),
      c + of_nat (length (filter (\<lambda>p. isInputDepFunction (snd p)) xs)),
      d @ map (\<lambda>p. fn_getName (fst p)) (filter (\<lambda>p. isInputDepFunction (snd p)) xs))"
  by (induction xs arbitrary: a b c d) (simp_all add: report_step_def add.assoc)

lemma unat_sum_list:
  "unat (sum_list (ws :: 32 word list)) = sum_list (map unat ws) mod 2 ^ 32"
proof (induction ws)
  case Nil
  then show ?case by simp
next
  case (Cons w ws)
  have "unat (w + sum_list ws) = (unat w + unat (sum_list ws)) mod 2 ^ 32"
    by (simp add: unat_word_ariths)
  also have "\<dots> = (unat w + sum_list (map unat ws) mod 2 ^ 32) mod 2 ^ 32"
    by (simp add: Cons.IH)
  also have "\<dots> = (unat w + sum_list (map unat ws)) mod 2 ^ 32"
    by (simp add: mod_add_right_eq)
  finally show ?case by simp
qed

text \<open>
  Claim C10. The entry \<open>NumOfInDepInst\<close> that \<open>reportInputDependencyInfo\<close> writes is the sum,
  over the pairs of the analysis info, of \<open>get_input_indep_count()\<close>, the per-function count
  of input-independent instructions; the sum is taken in \<open>unsigned\<close> arithmetic, that is,
  modulo \<open>2 ^ 32\<close>.
\<close>

theorem reported_indep_count:
  "entries_for ''NumOfInDepInst'' (reportInputDependencyInfo module_name m_IDA st)
     = entries_for ''NumOfInDepInst'' st
       @ [Unsigned (sum_list (map (\<lambda>p. get_input_indep_count (snd p)) m_IDA))]
   \<and> unat (sum_list (map (\<lambda>p. get_input_indep_count (snd p)) m_IDA))
     = sum_list (map (\<lambda>p. unat (get_input_indep_count (snd p))) m_IDA) mod 2 ^ 32"
proof -
  have "unat (sum_list (map (\<lambda>p. get_input_indep_count (snd p)) m_IDA))
     = sum_list (map (\<lambda>p. unat (get_input_indep_count (snd p))) m_IDA) mod 2 ^ 32"
    using unat_sum_list [of "map (\<lambda>p. get_input_indep_count (snd p)) m_IDA"]
    by (simp add: comp_def)
  then show ?thesis
    by (simp add: reportInputDependencyInfo_def fold_report_step report_inputdep_data_def
        write_entry_def setStatsTypeName_def entries_for_def)
qed

theorem reported_indep_count_witness:
  "entries_for ''NumOfInDepInst''
     (reportInputDependencyInfo ''mod''
        [(\<lparr>fn_getName = ''f'', fn_blocks = [2, 5]\<rparr>,
          \<lparr>get_input_indep_count = 3, isInputDepFunction = True\<rparr>),
         (\<lparr>fn_getName = ''g'', fn_blocks = [4]\<rparr>,
          \<lparr>get_input_indep_count = 4, isInputDepFunction = False\<rparr>)]
        \<lparr>stats_type_name = None, written = []\<rparr>)
     = [Unsigned 7]"
  using reported_indep_count [of "''mod''"
      "[(\<lparr>fn_getName = ''f'', fn_blocks = [2, 5]\<rparr>,
          \<lparr>get_input_indep_count = 3, isInputDepFunction = True\<rparr>),
         (\<lparr>fn_getName = ''g'', fn_blocks = [4]\<rparr>,
          \<lparr>get_input_indep_count = 4, isInputDepFunction = False\<rparr>)]"
      "\<lparr>stats_type_name = None, written = []\<rparr>"]
  by (simp add: entries_for_def)

end
